theory Spec2Isabelle
  imports Complex_Main "HOL-Library.Multiset" "HOL-Library.Sublist"
begin

section \<open>The objects handed over by the API client\<close>

text \<open>
  \<^verbatim>\<open>thread_scraper.py\<close> reads comments and submissions through an external API
  client. A comment object has scalar attributes and a forest of replies; the author is
  absent for a deleted account, the \<^verbatim>\<open>depth\<close> attribute may be missing
  (\<^verbatim>\<open>hasattr\<close>), \<^verbatim>\<open>edited\<close> is either false or a time stamp.
  Strings are Python \<^verbatim>\<open>str\<close> values over the characters both languages share
  (ASCII); text written to a terminal or a file is its UTF-8 encoding. Integers are
  unbounded, the finite floats of the API are rationals.
\<close>

datatype exn = ApiError string | IOError string

fun str_exn :: "exn \<Rightarrow> string" where
  "str_exn (ApiError m) = m"
| "str_exn (IOError m) = m"

record comment_attrs =
  raw_id :: string
  raw_author :: "string option"
  raw_body :: string
  raw_score :: int
  raw_created_utc :: rat
  raw_permalink :: string
  raw_parent_id :: string
  raw_depth :: "int option"
  raw_is_submitter :: bool
  raw_distinguished :: "string option"
  raw_edited :: "rat option"
  raw_controversiality :: int
  raw_gilded :: int

text \<open>
  Modelled from the spec: the API client's comment forest and its ``load more''
  operation are an external dependency that is not part of the repository. Following
  the glossary, a continuation placeholder stands in, at its place in a listing, for
  further replies not yet fetched, and resolving it needs a network call that either
  fails or yields more entries (which may again hold placeholders).
\<close>

datatype comment = Comment (attrs: comment_attrs) (replies: "entry list")
  and entry = Real comment | MoreComments "exn + entry list"

text \<open>
  Modelled from the spec: \<^verbatim>\<open>forest.replace_more(limit=None)\<close> resolves every
  placeholder of one listing before any reply is enumerated; the first failing network
  call raises, otherwise the listing holds comments only.
\<close>

fun replace_more :: "entry list \<Rightarrow> exn + comment list" where
  "replace_more [] = Inr []"
| "replace_more (Real c # es) =
     (case replace_more es of Inl e \<Rightarrow> Inl e | Inr cs \<Rightarrow> Inr (c # cs))"
| "replace_more (MoreComments (Inl e) # es) = Inl e"
| "replace_more (MoreComments (Inr ms) # es) =
     (case replace_more ms of
        Inl e \<Rightarrow> Inl e
      | Inr cs \<Rightarrow> (case replace_more es of Inl e \<Rightarrow> Inl e | Inr cs' \<Rightarrow> Inr (cs @ cs')))"

text \<open>
  Modelled from the spec: \<^verbatim>\<open>forest.list()\<close>, every object reachable in a listing
  (a comment and what its replies hold, or a placeholder still in place).
\<close>

fun forest_list_len :: "entry list \<Rightarrow> nat"
  and entry_list_len :: "entry \<Rightarrow> nat" where
  "forest_list_len [] = 0"
| "forest_list_len (e # es) = entry_list_len e + forest_list_len es"
| "entry_list_len (Real (Comment a rs)) = Suc (forest_list_len rs)"
| "entry_list_len (MoreComments m) = 1"

record submission_attrs =
  sub_id :: string
  sub_title :: string
  sub_author :: "string option"
  sub_score :: int
  sub_upvote_ratio :: rat
  sub_num_comments :: int
  sub_created_utc :: rat
  sub_url :: string
  sub_selftext :: string
  sub_permalink :: string
  sub_subreddit :: string
  sub_link_flair_text :: "string option"
  sub_over_18 :: bool
  sub_spoiler :: bool
  sub_locked :: bool
  sub_gilded :: int

datatype submission = Submission (sub_attrs: submission_attrs) (sub_comments: "entry list")

text \<open>The client: fetching a submission by id fails or yields the submission.\<close>

type_synonym reddit = "string \<Rightarrow> exn + submission"

section \<open>Python's string operations\<close>

fun str_nat :: "nat \<Rightarrow> string" where
  "str_nat n =
     (if n < 10 then [char_of (48 + n)] else str_nat (n div 10) @ [char_of (48 + n mod 10)])"

declare str_nat.simps [simp del]

definition str_int :: "int \<Rightarrow> string" where
  "str_int i = (if i < 0 then CHR ''-'' # str_nat (nat (- i)) else str_nat (nat i))"

definition str_bool :: "bool \<Rightarrow> string" where
  "str_bool b = (if b then ''True'' else ''False'')"

text \<open>\<^verbatim>\<open>s.replace(old, new)\<close> for a pattern \<open>old\<close> of one character.\<close>

definition replace :: "char \<Rightarrow> string \<Rightarrow> string \<Rightarrow> string" where
  "replace old new s = concat (map (\<lambda>c. if c = old then new else [c]) s)"

text \<open>\<^verbatim>\<open>s.lower()\<close> on ASCII text: the letters A to Z move to a to z.\<close>

definition lower_char :: "char \<Rightarrow> char" where
  "lower_char c =
     (let n = (of_char c :: nat) in if 65 \<le> n \<and> n \<le> 90 then char_of (n + 32) else c)"

definition lower :: "string \<Rightarrow> string" where
  "lower s = map lower_char s"

text \<open>\<^verbatim>\<open>s.split('\n')\<close>: the pieces between line feeds, at least one piece.\<close>

fun split_nl :: "string \<Rightarrow> string list" where
  "split_nl [] = [[]]"
| "split_nl (c # cs) =
     (if c = CHR 0x0A then [] # split_nl cs
      else (case split_nl cs of l # ls \<Rightarrow> (c # l) # ls | [] \<Rightarrow> [[c]]))"

definition times :: "string \<Rightarrow> int \<Rightarrow> string" where
  "times s n = concat (replicate (nat n) s)"

section \<open>Extracted records and the program state\<close>

record comment_data =
  cid :: string
  author :: string
  body :: string
  score :: int
  created_utc :: rat
  created_datetime :: string
  permalink :: string
  parent_id :: string
  depth :: int
  is_submitter :: bool
  distinguished :: "string option"
  edited :: bool
  controversiality :: int
  gilded :: int

record post_data =
  post_id :: string
  title :: string
  post_author :: string
  post_score :: int
  upvote_ratio :: rat
  num_comments :: int
  post_created_utc :: rat
  post_created_datetime :: string
  url :: string
  selftext :: string
  post_permalink :: string
  subreddit :: string
  link_flair_text :: "string option"
  over_18 :: bool
  spoiler :: bool
  locked :: bool
  post_gilded :: int

record scrape_result =
  post :: post_data
  comments :: "comment_data list"
  total_comments :: int
  scraped_at :: string

text \<open>
  The state the methods work on: the two mutable attributes of the scraper object, what
  has been printed (one string per \<^verbatim>\<open>print\<close> call, terminator included) and the files
  written.
\<close>

record state =
  all_comments :: "comment_data list"
  comment_count :: int
  stdout :: "string list"
  files :: "string \<rightharpoonup> string"

text \<open>
  What the run takes from its environment: the local ISO text of a time stamp
  (\<^verbatim>\<open>datetime.fromtimestamp(t).isoformat()\<close>), the text of \<^verbatim>\<open>ratio*100\<close> under the
  format \<^verbatim>\<open>.1f\<close>, the clock (\<^verbatim>\<open>datetime.now().isoformat()\<close>), the JSON
  serialiser, and whether a path can be opened for writing.
\<close>

record env =
  fromtimestamp_isoformat :: "rat \<Rightarrow> string"
  percent_1f :: "rat \<Rightarrow> string"
  now_isoformat :: string
  json_dumps :: "scrape_result \<Rightarrow> string"
  can_open :: "string \<Rightarrow> bool"

definition nl :: string where
  "nl = [CHR 0x0A]"

definition print :: "string \<Rightarrow> state \<Rightarrow> state" where
  "print text s = s\<lparr>stdout := stdout s @ [text @ nl]\<rparr>"

definition print_end :: "string \<Rightarrow> string \<Rightarrow> state \<Rightarrow> state" where
  "print_end text end s = s\<lparr>stdout := stdout s @ [text @ end]\<rparr>"

text \<open>\<^verbatim>\<open>extract_comment_data\<close>, with the time stamp conversion as parameter.\<close>

definition extract_comment_data :: "(rat \<Rightarrow> string) \<Rightarrow> comment \<Rightarrow> comment_data" where
  "extract_comment_data isofmt c =
     \<lparr> cid = raw_id (attrs c),
       author = (case raw_author (attrs c) of Some a \<Rightarrow> a | None \<Rightarrow> ''[deleted]''),
       body = raw_body (attrs c),
       score = raw_score (attrs c),
       created_utc = raw_created_utc (attrs c),
       created_datetime = isofmt (raw_created_utc (attrs c)),
       permalink = raw_permalink (attrs c),
       parent_id = raw_parent_id (attrs c),
       depth = (case raw_depth (attrs c) of Some d \<Rightarrow> d | None \<Rightarrow> 0),
       is_submitter = raw_is_submitter (attrs c),
       distinguished = raw_distinguished (attrs c),
       edited = (case raw_edited (attrs c) of Some t \<Rightarrow> t \<noteq> 0 | None \<Rightarrow> False),
       controversiality = raw_controversiality (attrs c),
       gilded = raw_gilded (attrs c) \<rparr>"

section \<open>The tree flattener\<close>

lemma replace_more_size:
  "replace_more es = Inr cs \<Longrightarrow> size_list size cs \<le> size_list size es"
  by (induction es arbitrary: cs rule: replace_more.induct)
     (fastforce split: sum.splits)+

lemma replace_more_member_size:
  "replace_more es = Inr cs \<Longrightarrow> r \<in> set cs \<Longrightarrow> size r \<le> size_list size es"
  using replace_more_size [of es cs] size_list_estimation' [of r cs "size r" size]
  by simp

text \<open>
  \<^verbatim>\<open>process_comment_tree\<close>: the record of the comment itself, the counter, the
  progress line every 50 comments, then the \<^verbatim>\<open>try\<close> block: resolve the
  placeholders, and extend \<^verbatim>\<open>comments\<close> with the subtree of each reply. The
  \<^verbatim>\<open>except\<close> branch prints the warning and falls through to the return.
  \<open>process_replies\<close> is the \<^verbatim>\<open>for\<close> loop; \<open>found\<close> is the local list
  \<^verbatim>\<open>comments\<close>.
\<close>

function process_comment_tree ::
    "(rat \<Rightarrow> string) \<Rightarrow> comment \<Rightarrow> int \<Rightarrow> state \<Rightarrow> comment_data list \<times> state"
  and process_replies ::
    "(rat \<Rightarrow> string) \<Rightarrow> comment list \<Rightarrow> int \<Rightarrow> comment_data list \<Rightarrow> state
       \<Rightarrow> comment_data list \<times> state"
where
  "process_comment_tree isofmt c d s =
     (let comment_data = (extract_comment_data isofmt c)\<lparr>depth := d\<rparr>;
          found = [comment_data];
          s1 = s\<lparr>comment_count := comment_count s + 1\<rparr>;
          s2 = (if comment_count s1 mod 50 = 0
                then print_end (''  Processed '' @ str_int (comment_count s1) @ '' comments...'')
                       [CHR 0x0D] s1
                else s1)
      in case replace_more (replies c) of
           Inl e \<Rightarrow>
             (found,
              print (nl @ ''  Warning: Error processing replies for comment '' @
                     raw_id (attrs c) @ '': '' @ str_exn e) s2)
         | Inr rs \<Rightarrow> process_replies isofmt rs (d + 1) found s2)"
| "process_replies isofmt [] d found s = (found, s)"
| "process_replies isofmt (reply # rs) d found s =
     (case process_comment_tree isofmt reply d s of
        (sub, s') \<Rightarrow> process_replies isofmt rs d (found @ sub) s')"
  by pat_completeness auto
termination
proof (relation "measure (\<lambda>x. case x of
          Inl (isofmt, c, d, s) \<Rightarrow> 2 * size c
        | Inr (isofmt, rs, d, acc, s) \<Rightarrow> 2 * size_list size rs + 1)", goal_cases)
  case (2 isofmt c d s comment_data found s1 s2 rs)
  from \<open>replace_more (replies c) = Inr rs\<close>
  have "size_list size rs \<le> size_list size (replies c)"
    by (rule replace_more_size)
  moreover have "size_list size (replies c) < size c"
    by (cases c) simp
  ultimately show ?case
    by simp
qed auto

declare process_comment_tree.simps [simp del]

section \<open>The thread fetcher\<close>

text \<open>The characters outside ASCII that the script prints, as UTF-8.\<close>

definition memo :: string where "memo = [CHR 0xF0, CHR 0x9F, CHR 0x93, CHR 0x9D]"
definition bust :: string where "bust = [CHR 0xF0, CHR 0x9F, CHR 0x91, CHR 0xA4]"
definition up_arrow :: string where
  "up_arrow = [CHR 0xE2, CHR 0xAC, CHR 0x86, CHR 0xEF, CHR 0xB8, CHR 0x8F]"
definition speech :: string where "speech = [CHR 0xF0, CHR 0x9F, CHR 0x92, CHR 0xAC]"
definition calendar :: string where "calendar = [CHR 0xF0, CHR 0x9F, CHR 0x93, CHR 0x85]"
definition magnifier :: string where "magnifier = [CHR 0xF0, CHR 0x9F, CHR 0x94, CHR 0x8D]"
definition check_mark :: string where "check_mark = [CHR 0xE2, CHR 0x9C, CHR 0x93]"
definition cross_mark :: string where "cross_mark = [CHR 0xE2, CHR 0x9D, CHR 0x8C]"

definition extract_post_data :: "(rat \<Rightarrow> string) \<Rightarrow> submission \<Rightarrow> post_data" where
  "extract_post_data isofmt submission =
     \<lparr> post_id = sub_id (sub_attrs submission),
       title = sub_title (sub_attrs submission),
       post_author = (case sub_author (sub_attrs submission) of
                        Some a \<Rightarrow> a | None \<Rightarrow> ''[deleted]''),
       post_score = sub_score (sub_attrs submission),
       upvote_ratio = sub_upvote_ratio (sub_attrs submission),
       num_comments = sub_num_comments (sub_attrs submission),
       post_created_utc = sub_created_utc (sub_attrs submission),
       post_created_datetime = isofmt (sub_created_utc (sub_attrs submission)),
       url = sub_url (sub_attrs submission),
       selftext = sub_selftext (sub_attrs submission),
       post_permalink = sub_permalink (sub_attrs submission),
       subreddit = sub_subreddit (sub_attrs submission),
       link_flair_text = sub_link_flair_text (sub_attrs submission),
       over_18 = sub_over_18 (sub_attrs submission),
       spoiler = sub_spoiler (sub_attrs submission),
       locked = sub_locked (sub_attrs submission),
       post_gilded = sub_gilded (sub_attrs submission) \<rparr>"

text \<open>The loop of \<^verbatim>\<open>scrape_submission\<close> over the top-level comments.\<close>

fun process_top_level :: "(rat \<Rightarrow> string) \<Rightarrow> comment list \<Rightarrow> state \<Rightarrow> state" where
  "process_top_level isofmt [] s = s"
| "process_top_level isofmt (c # cs) s =
     (case process_comment_tree isofmt c 0 s of
        (sub, s') \<Rightarrow> process_top_level isofmt cs (s'\<lparr>all_comments := all_comments s' @ sub\<rparr>))"

text \<open>
  \<^verbatim>\<open>scrape_submission\<close>. The submission object is lazy: the first attribute read
  fetches it and may raise, and so may the resolution of the top-level placeholders;
  neither is caught, so the exception leaves the method with what was printed so far.
\<close>

definition scrape_submission ::
    "reddit \<Rightarrow> env \<Rightarrow> string \<Rightarrow> state \<Rightarrow> (exn + scrape_result) \<times> state" where
  "scrape_submission client env submission_id s =
     (let s = print (times ''='' 80) s;
          s = print ''Reddit Thread Scraper (PRAW)'' s;
          s = print (times ''='' 80) s;
          s = print (nl @ ''Fetching submission: '' @ submission_id) s
      in case client submission_id of
           Inl e \<Rightarrow> (Inl e, s)
         | Inr submission \<Rightarrow>
             (let post_data = extract_post_data (fromtimestamp_isoformat env) submission;
                  s = print (nl @ memo @ '' Title: '' @ title post_data) s;
                  s = print (bust @ '' Author: u/'' @ post_author post_data) s;
                  s = print (up_arrow @ ''  Score: '' @ str_int (post_score post_data) @ '' ('' @
                             percent_1f env (upvote_ratio post_data) @ ''% upvoted)'') s;
                  s = print (speech @ '' Comments: '' @ str_int (num_comments post_data)) s;
                  s = print (calendar @ '' Posted: '' @ post_created_datetime post_data) s;
                  s = print (nl @ magnifier @ '' Fetching all comments (this may take a while)...'') s;
                  s = print (''   This includes all nested replies and '' @ [CHR 0x27] @ ''more'' @
                             [CHR 0x27] @ '' children...'') s;
                  s = s\<lparr>comment_count := 0\<rparr>;
                  s = s\<lparr>all_comments := []\<rparr>;
                  s = print (''   Expanding '' @ [CHR 0x27] @ ''more comments'' @ [CHR 0x27] @
                             '' objects...'') s
              in case replace_more (sub_comments submission) of
                   Inl e \<Rightarrow> (Inl e, s)
                 | Inr top_level \<Rightarrow>
                     (let s = print (''   Found '' @
                                str_int (int (forest_list_len (map Real top_level))) @
                                '' total comments'') s;
                          s = print ''   Processing comment trees...'' s;
                          s = process_top_level (fromtimestamp_isoformat env) top_level s;
                          s = print (nl @ check_mark @ '' Successfully extracted '' @
                                str_int (int (length (all_comments s))) @ '' comments!'') s
                      in (Inr \<lparr> post = post_data,
                                comments = all_comments s,
                                total_comments = int (length (all_comments s)),
                                scraped_at = now_isoformat env \<rparr>, s))))"

section \<open>The exporters\<close>

definition box_down_right :: string where "box_down_right = [CHR 0xE2, CHR 0x94, CHR 0x8C]"
definition box_horizontal :: string where "box_horizontal = [CHR 0xE2, CHR 0x94, CHR 0x80]"
definition box_vertical :: string where "box_vertical = [CHR 0xE2, CHR 0x94, CHR 0x82]"
definition box_up_right :: string where "box_up_right = [CHR 0xE2, CHR 0x94, CHR 0x94]"

text \<open>
  \<^verbatim>\<open>open(path, 'w')\<close> followed by the writes of the \<^verbatim>\<open>with\<close> block: the path
  cannot be opened and the exception leaves \<^verbatim>\<open>save_results\<close>, or the file holds
  what was written.
\<close>

definition write_file :: "env \<Rightarrow> string \<Rightarrow> string \<Rightarrow> state \<Rightarrow> exn + state" where
  "write_file env path content s =
     (if can_open env path then Inr (s\<lparr>files := (files s)(path \<mapsto> content)\<rparr>)
      else Inl (IOError path))"

text \<open>The readable text file: the header block of the post, then one block per comment.\<close>

definition txt_header :: "env \<Rightarrow> scrape_result \<Rightarrow> string" where
  "txt_header env results =
     (let p = post results in
      times ''='' 80 @ nl @
      ''TITLE: '' @ title p @ nl @
      ''AUTHOR: u/'' @ post_author p @ nl @
      ''SUBREDDIT: r/'' @ subreddit p @ nl @
      ''SCORE: '' @ str_int (post_score p) @ '' ('' @ percent_1f env (upvote_ratio p) @
        ''% upvoted)'' @ nl @
      ''URL: '' @ url p @ nl @
      ''POSTED: '' @ post_created_datetime p @ nl @
      ''COMMENTS: '' @ str_int (num_comments p) @ nl @
      ''PERMALINK: https://reddit.com'' @ post_permalink p @ nl @
      times ''='' 80 @ nl @ nl @
      (if selftext p \<noteq> [] then selftext p @ nl @ nl else []) @
      times ''-'' 80 @ nl @
      ''COMMENTS ('' @ str_int (int (length (comments results))) @ '' total)'' @ nl @
      times ''-'' 80 @ nl @ nl)"

definition txt_comment :: "comment_data \<Rightarrow> string" where
  "txt_comment comment =
     (let indent = times ''  '' (depth comment) in
      indent @ box_down_right @ box_horizontal @ '' ['' @ str_int (score comment) @ ''] u/'' @
        author comment @
      (if is_submitter comment then '' [OP]'' else []) @
      (case distinguished comment of
         Some m \<Rightarrow> if m \<noteq> [] then '' ['' @ m @ '']'' else []
       | None \<Rightarrow> []) @
      '' (depth: '' @ str_int (depth comment) @ '')'' @ nl @
      concat (map (\<lambda>line. indent @ box_vertical @ ''  '' @ line @ nl)
                (split_nl (body comment))) @
      indent @ box_vertical @ ''  [ID: '' @ cid comment @ '']'' @ nl @
      indent @ box_up_right @ box_horizontal @ nl @ nl)"

definition txt_content :: "env \<Rightarrow> scrape_result \<Rightarrow> string" where
  "txt_content env results = txt_header env results @ concat (map txt_comment (comments results))"

text \<open>The CSV file: the header row, then one row per comment.\<close>

definition csv_header :: string where
  "csv_header = ''id,author,score,depth,is_submitter,created_datetime,body'' @ nl"

definition csv_row :: "comment_data \<Rightarrow> string" where
  "csv_row c =
     (let body' = replace (CHR 0x0A) '' '' (replace (CHR 0x22) [CHR 0x22, CHR 0x22] (body c));
          author' = replace (CHR 0x22) [CHR 0x22, CHR 0x22] (author c)
      in ([CHR 0x22] @ cid c @ [CHR 0x22] @ '','' @ [CHR 0x22] @ author' @ [CHR 0x22] @ '','' @
          str_int (score c) @ '','' @ str_int (depth c) @ '','') @
         (str_bool (is_submitter c) @ '','' @ [CHR 0x22] @ created_datetime c @ [CHR 0x22] @
          '','' @ [CHR 0x22] @ body' @ [CHR 0x22] @ nl))"

definition csv_content :: "scrape_result \<Rightarrow> string" where
  "csv_content results = csv_header @ concat (map csv_row (comments results))"

text \<open>
  \<^verbatim>\<open>sorted(xs, key=..., reverse=True)\<close> on integer keys: Python documents the sort as
  stable, also under \<^verbatim>\<open>reverse\<close>, where the elements are ordered as if each comparison
  were reversed; on integers that is the stable ascending sort of the negated key.
\<close>

definition sorted_reverse :: "('a \<Rightarrow> int) \<Rightarrow> 'a list \<Rightarrow> 'a list" where
  "sorted_reverse key xs = sort_key (\<lambda>x. - key x) xs"

text \<open>The summary: the first 50 comments by score, numbered from 1, bodies cut at 500.\<close>

definition top_comments :: "scrape_result \<Rightarrow> comment_data list" where
  "top_comments results = take 50 (sorted_reverse score (comments results))"

definition summary_body :: "comment_data \<Rightarrow> string" where
  "summary_body comment = take 500 (body comment)"

definition summary_entry :: "nat \<times> comment_data \<Rightarrow> string" where
  "summary_entry ic =
     (case ic of (i, comment) \<Rightarrow>
        str_int (int i) @ ''. u/'' @ author comment @ '' (Score: '' @ str_int (score comment) @
          '', Depth: '' @ str_int (depth comment) @ '')'' @ nl @
        ''   '' @ summary_body comment @ nl @
        ''   https://reddit.com'' @ permalink comment @ nl @
        times ''-'' 80 @ nl @ nl)"

definition enumerate_from :: "nat \<Rightarrow> 'a list \<Rightarrow> (nat \<times> 'a) list" where
  "enumerate_from n xs = zip [n ..< n + length xs] xs"

definition summary_content :: "scrape_result \<Rightarrow> string" where
  "summary_content results =
     ''TOP 50 COMMENTS BY SCORE'' @ nl @ times ''='' 80 @ nl @ nl @
     concat (map summary_entry (enumerate_from 1 (top_comments results)))"

text \<open>
  \<^verbatim>\<open>save_results\<close>: the four files in turn. The dictionary is passed by reference,
  so the method returns it as it stands when the method is left, next to the exception
  that left it (if any) and the state.
\<close>

definition save_results ::
    "env \<Rightarrow> scrape_result \<Rightarrow> string \<Rightarrow> state \<Rightarrow> exn option \<times> scrape_result \<times> state" where
  "save_results env results output_prefix s =
     (let json_file = output_prefix @ ''.json'' in
      case write_file env json_file (json_dumps env results) s of
        Inl e \<Rightarrow> (Some e, results, s)
      | Inr s \<Rightarrow>
     (let s = print (nl @ check_mark @ '' Saved complete JSON to: '' @ json_file) s;
          txt_file = output_prefix @ ''.txt'' in
      case write_file env txt_file (txt_content env results) s of
        Inl e \<Rightarrow> (Some e, results, s)
      | Inr s \<Rightarrow>
     (let s = print (check_mark @ '' Saved readable text to: '' @ txt_file) s;
          csv_file = output_prefix @ ''.csv'' in
      case write_file env csv_file (csv_content results) s of
        Inl e \<Rightarrow> (Some e, results, s)
      | Inr s \<Rightarrow>
     (let s = print (check_mark @ '' Saved CSV to: '' @ csv_file) s;
          summary_file = output_prefix @ ''_top_comments.txt'' in
      case write_file env summary_file (summary_content results) s of
        Inl e \<Rightarrow> (Some e, results, s)
      | Inr s \<Rightarrow>
          (None, results, print (check_mark @ '' Saved top comments to: '' @ summary_file) s)))))"

section \<open>The user filter\<close>

text \<open>\<^verbatim>\<open>search_user\<close>: the list comprehension, as the loop it is.\<close>

fun search_user_loop :: "comment_data list \<Rightarrow> string \<Rightarrow> comment_data list" where
  "search_user_loop [] username = []"
| "search_user_loop (c # cs) username =
     (if lower (author c) = lower username then c # search_user_loop cs username
      else search_user_loop cs username)"

definition search_user :: "scrape_result \<Rightarrow> string \<Rightarrow> comment_data list" where
  "search_user results username = search_user_loop (comments results) username"

section \<open>The main function\<close>

datatype outcome = Exit int | Raised exn | Returned

definition prints :: "string list \<Rightarrow> state \<Rightarrow> state" where
  "prints ls s = fold print ls s"

definition credentials_help :: "string list" where
  "credentials_help =
     [''ERROR: You need to fill in your Reddit API credentials!'',
      nl @ ''Follow these steps:'',
      ''1. Go to: https://www.reddit.com/prefs/apps'',
      ''2. Click '' @ [CHR 0x27] @ ''create another app...'' @ [CHR 0x27] @ '' at the bottom'',
      ''3. Fill in:'',
      ''   - name: anything (e.g., '' @ [CHR 0x27] @ ''reddit_scraper'' @ [CHR 0x27] @ '')'',
      ''   - Choose '' @ [CHR 0x27] @ ''script'' @ [CHR 0x27],
      ''   - redirect uri: http://localhost:8080'',
      ''4. Click '' @ [CHR 0x27] @ ''create app'' @ [CHR 0x27],
      ''5. Copy the client_id (string under '' @ [CHR 0x27] @ ''personal use script'' @
        [CHR 0x27] @ '')'',
      ''6. Copy the secret'',
      ''7. Paste them into this script'']"

definition print_user_comment :: "nat \<times> comment_data \<Rightarrow> state \<Rightarrow> state" where
  "print_user_comment ic s =
     (case ic of (i, comment) \<Rightarrow>
        prints [nl @ ''Comment #'' @ str_int (int i),
                ''Score: '' @ str_int (score comment) @ '' | Depth: '' @ str_int (depth comment),
                ''Posted: '' @ created_datetime comment,
                ''Link: https://reddit.com'' @ permalink comment,
                nl @ body comment @ nl,
                times ''-'' 80] s)"

text \<open>What \<^verbatim>\<open>main\<close> does once the client exists.\<close>

definition run :: "reddit \<Rightarrow> env \<Rightarrow> string \<Rightarrow> string \<Rightarrow> state \<Rightarrow> outcome \<times> state" where
  "run client env SUBMISSION_ID OUTPUT_PREFIX s =
     (let s = s\<lparr>all_comments := [], comment_count := 0\<rparr>;
          s = print ''Starting scrape...'' s
      in case scrape_submission client env SUBMISSION_ID s of
           (Inl e, s) \<Rightarrow> (Raised e, s)
         | (Inr results, s) \<Rightarrow>
      (let s = print (nl @ ''Saving results...'') s
       in case save_results env results OUTPUT_PREFIX s of
            (Some e, results, s) \<Rightarrow> (Raised e, s)
          | (None, results, s) \<Rightarrow>
      (let s = prints [nl @ times ''='' 80,
                       ''SEARCHING FOR '' @ [CHR 0x27] @ ''boredlibertine'' @ [CHR 0x27],
                       times ''='' 80] s;
           user_comments = search_user results ''boredlibertine'';
           s = (if user_comments \<noteq> []
                then fold print_user_comment (enumerate_from 1 user_comments)
                       (print (nl @ check_mark @ '' Found '' @
                          str_int (int (length user_comments)) @
                          '' comment(s) by u/boredlibertine:'' @ nl) s)
                else print (nl @ cross_mark @ '' No comments by u/boredlibertine found'') s);
           s = prints [nl @ times ''='' 80, ''COMPLETE!'', times ''='' 80,
                       ''Total comments scraped: '' @ str_int (total_comments results),
                       ''Expected comments: '' @ str_int (num_comments (post results))] s;
           s = (if total_comments results \<ge> num_comments (post results)
                then print (check_mark @ '' Successfully retrieved ALL comments!'') s
                else print ''Note: Some comments may have been deleted/removed'' s)
       in (Returned, s))))"

text \<open>
  \<^verbatim>\<open>main\<close>. The three credential constants that the user fills in at the top of
  the function are its parameters; \<open>praw_Reddit\<close> builds the client from them.
\<close>

definition main ::
    "(string \<Rightarrow> string \<Rightarrow> string \<Rightarrow> reddit) \<Rightarrow> env \<Rightarrow> string \<Rightarrow> string \<Rightarrow> string \<Rightarrow> state
       \<Rightarrow> outcome \<times> state" where
  "main praw_Reddit env CLIENT_ID CLIENT_SECRET USER_AGENT s =
     (let SUBMISSION_ID = ''1ptvi51'';
          OUTPUT_PREFIX = ''reddit_complete''
      in if CLIENT_ID = ''YOUR_CLIENT_ID_HERE'' \<or> CLIENT_SECRET = ''YOUR_CLIENT_SECRET_HERE''
         then (Exit 1, prints credentials_help s)
         else (let s = print ''Initializing Reddit API client...'' s;
                   client = praw_Reddit CLIENT_ID CLIENT_SECRET USER_AGENT
               in run client env SUBMISSION_ID OUTPUT_PREFIX s))"

section \<open>Reference notions for the properties\<close>

lemma reply_smaller:
  "replace_more (replies c) = Inr rs \<Longrightarrow> r \<in> set rs \<Longrightarrow> size r < size c"
  using replace_more_member_size [of "replies c" rs r] by (cases c) simp

text \<open>
  The flattening as the specification words it: the node at the given depth, then the
  subtrees of its replies at one more, in listing order; a node whose replies cannot be
  resolved stands alone.
\<close>

function flatten :: "(rat \<Rightarrow> string) \<Rightarrow> comment \<Rightarrow> int \<Rightarrow> comment_data list" where
  "flatten isofmt c d =
     (extract_comment_data isofmt c)\<lparr>depth := d\<rparr> #
     (case replace_more (replies c) of
        Inl e \<Rightarrow> []
      | Inr rs \<Rightarrow> concat (map (\<lambda>r. flatten isofmt r (d + 1)) rs))"
  by pat_completeness auto
termination
  by (relation "measure (\<lambda>(isofmt, c, d). size c)") (auto dest: reply_smaller)

declare flatten.simps [simp del]









definition comment_id :: "comment \<Rightarrow> string" where
  "comment_id c = raw_id (attrs c)"



text \<open>
  A reader for the CSV file, as a reference for the round trip: the state machine of a
  CSV reader with the comma as delimiter, the double quote as quote character, quotes
  inside a quoted field doubled, and the line feed as end of a record outside quotes.
  The state holds the mode, the field and the record read so far, and the finished
  records. Integers are read back from an optional minus sign and decimal digits.
\<close>

datatype csv_mode = StartRecord | StartField | InField | InQuotedField | QuoteInQuotedField

type_synonym csv_state = "csv_mode \<times> string \<times> string list \<times> string list list"

fun csv_step :: "csv_state \<Rightarrow> char \<Rightarrow> csv_state" where
  "csv_step (StartRecord, f, r, rows) c =
     (if c = CHR 0x0A then (StartRecord, [], [], rows @ [[]])
      else if c = CHR 0x22 then (InQuotedField, [], [], rows)
      else if c = CHR '','' then (StartField, [], [[]], rows)
      else (InField, [c], [], rows))"
| "csv_step (StartField, f, r, rows) c =
     (if c = CHR 0x0A then (StartRecord, [], [], rows @ [r @ [[]]])
      else if c = CHR 0x22 then (InQuotedField, [], r, rows)
      else if c = CHR '','' then (StartField, [], r @ [[]], rows)
      else (InField, [c], r, rows))"
| "csv_step (InField, f, r, rows) c =
     (if c = CHR 0x0A then (StartRecord, [], [], rows @ [r @ [f]])
      else if c = CHR '','' then (StartField, [], r @ [f], rows)
      else (InField, f @ [c], r, rows))"
| "csv_step (InQuotedField, f, r, rows) c =
     (if c = CHR 0x22 then (QuoteInQuotedField, f, r, rows)
      else (InQuotedField, f @ [c], r, rows))"
| "csv_step (QuoteInQuotedField, f, r, rows) c =
     (if c = CHR 0x22 then (InQuotedField, f @ [c], r, rows)
      else if c = CHR '','' then (StartField, [], r @ [f], rows)
      else if c = CHR 0x0A then (StartRecord, [], [], rows @ [r @ [f]])
      else (InField, f @ [c], r, rows))"

fun csv_finish :: "csv_state \<Rightarrow> string list list" where
  "csv_finish (StartRecord, f, r, rows) = rows"
| "csv_finish (m, f, r, rows) = rows @ [r @ [f]]"

definition parse_csv :: "string \<Rightarrow> string list list" where
  "parse_csv text = csv_finish (foldl csv_step (StartRecord, [], [], []) text)"

definition is_digit :: "char \<Rightarrow> bool" where
  "is_digit c \<longleftrightarrow> 48 \<le> (of_char c :: nat) \<and> (of_char c :: nat) \<le> 57"

definition nat_of_digits :: "string \<Rightarrow> nat" where
  "nat_of_digits ds = foldl (\<lambda>n c. 10 * n + (of_char c - 48)) 0 ds"

definition int_of_str :: "string \<Rightarrow> int option" where
  "int_of_str s =
     (case s of
        [] \<Rightarrow> None
      | c # ds \<Rightarrow>
          if c = CHR ''-'' then
            (if ds \<noteq> [] \<and> list_all is_digit ds then Some (- int (nat_of_digits ds)) else None)
          else if list_all is_digit s then Some (int (nat_of_digits s))
          else None)"

fun read_row :: "string list \<Rightarrow> (string \<times> string \<times> int \<times> int) option" where
  "read_row (i # a # sc # d # rest) =
     (case (int_of_str sc, int_of_str d) of
        (Some sc', Some d') \<Rightarrow> Some (i, a, sc', d')
      | _ \<Rightarrow> None)"
| "read_row row = None"

definition csv_fields :: "comment_data \<Rightarrow> string list" where
  "csv_fields c =
     [cid c, author c, str_int (score c), str_int (depth c), str_bool (is_submitter c),
      created_datetime c, replace (CHR 0x0A) '' '' (body c)]"

text \<open>
  The fields that the reader is to find in the row of a comment; the reader run from a
  state over a text; the characters that neither end nor quote a field.
\<close>

definition csv_run :: "csv_state \<Rightarrow> string \<Rightarrow> csv_state" where
  "csv_run st text = foldl csv_step st text"

definition plain_char :: "char \<Rightarrow> bool" where
  "plain_char c \<longleftrightarrow> c \<noteq> CHR '','' \<and> c \<noteq> CHR 0x0A \<and> c \<noteq> CHR 0x22"

text \<open>Sample data for the instances below.\<close>

definition example_attrs :: "string \<Rightarrow> comment_attrs" where
  "example_attrs i =
     \<lparr> raw_id = i, raw_author = Some ''alice'', raw_body = ''hello'', raw_score = 1,
       raw_created_utc = 0, raw_permalink = ''/r/x/'' @ i, raw_parent_id = ''t3_x'',
       raw_depth = None, raw_is_submitter = False, raw_distinguished = None,
       raw_edited = None, raw_controversiality = 0, raw_gilded = 0 \<rparr>"

definition state0 :: state where
  "state0 = \<lparr> all_comments = [], comment_count = 0, stdout = [], files = Map.empty \<rparr>"

definition example_env :: env where
  "example_env =
     \<lparr> fromtimestamp_isoformat = (\<lambda>t. ''2024-01-01T00:00:00''),
       percent_1f = (\<lambda>r. ''97.0''),
       now_isoformat = ''2024-01-02T00:00:00'',
       json_dumps = (\<lambda>r. ''{}''),
       can_open = (\<lambda>path. True) \<rparr>"

definition scenario_comment :: comment where
  "scenario_comment =
     Comment (example_attrs ''top'')
       [Real (Comment (example_attrs ''reply1'')
                [MoreComments (Inr [Real (Comment (example_attrs ''reply1.1'') [])])]),
        Real (Comment (example_attrs ''reply2'') [])]"

definition throttled_comment :: comment where
  "throttled_comment =
     Comment (example_attrs ''second'')
       [Real (Comment (example_attrs ''lost'') []),
        MoreComments (Inl (ApiError ''received 429 HTTP response''))]"

definition example_submission :: submission where
  "example_submission =
     Submission
       \<lparr> sub_id = ''1ptvi51'', sub_title = ''A thread'', sub_author = None, sub_score = 10,
         sub_upvote_ratio = 97 / 100, sub_num_comments = 7, sub_created_utc = 0,
         sub_url = ''https://reddit.com/r/x/1ptvi51'', sub_selftext = '''',
         sub_permalink = ''/r/x/comments/1ptvi51/'', sub_subreddit = ''x'',
         sub_link_flair_text = None, sub_over_18 = False, sub_spoiler = False,
         sub_locked = False, sub_gilded = 0 \<rparr>
       [Real scenario_comment, MoreComments (Inr [Real throttled_comment])]"

definition example_client :: reddit where
  "example_client submission_id =
     (if submission_id = ''1ptvi51'' then Inr example_submission
      else Inl (ApiError ''received 404 HTTP response''))"

definition example_results :: scrape_result where
  "example_results =
     \<lparr> post = extract_post_data (\<lambda>t. ''2024-01-01T00:00:00'') example_submission,
       comments =
         [(extract_comment_data (\<lambda>t. ''2024-01-01T00:00:00'')
             (Comment (example_attrs ''c1'') []))
            \<lparr>author := ''BoredLibertine'', score := 3, body := replicate 600 (CHR ''x'')\<rparr>,
          (extract_comment_data (\<lambda>t. ''2024-01-01T00:00:00'')
             (Comment (example_attrs ''c2'') []))\<lparr>score := 8, depth := 1\<rparr>,
          (extract_comment_data (\<lambda>t. ''2024-01-01T00:00:00'')
             (Comment (example_attrs ''c3'') []))
            \<lparr>author := ''boredlibertine'', score := 3, depth := 2\<rparr>],
       total_comments = 3,
       scraped_at = ''2024-01-02T00:00:00'' \<rparr>"

definition failing_praw :: "string \<Rightarrow> string \<Rightarrow> string \<Rightarrow> reddit" where
  "failing_praw client_id client_secret user_agent submission_id =
     Inl (ApiError ''received 401 HTTP response'')"



definition quoted_id_results :: scrape_result where
  "quoted_id_results =
     example_results\<lparr>comments :=
       [(extract_comment_data (\<lambda>t. ''2024-01-01T00:00:00'') (Comment (example_attrs ''c1'') []))
          \<lparr>cid := [CHR ''a'', CHR 0x22]\<rparr>]\<rparr>"

definition quoted_body_results :: scrape_result where
  "quoted_body_results =
     example_results\<lparr>comments :=
       [(extract_comment_data (\<lambda>t. ''2024-01-01T00:00:00'') (Comment (example_attrs ''c1'') []))
          \<lparr>author := ''O'' @ [CHR 0x22] @ ''Neil'', score := - 12,
           body := ''say '' @ [CHR 0x22] @ ''hi'' @ [CHR 0x22, CHR 0x0A] @ ''bye, now''\<rparr>]\<rparr>"

section \<open>The flattener computes the pre-order listing\<close>

lemma process_comment_tree_flatten:
  "fst (process_comment_tree isofmt c d s) = flatten isofmt c d"
  "fst (process_replies isofmt rs d found s) = found @ concat (map (\<lambda>r. flatten isofmt r d) rs)"
proof (induction isofmt c d s and isofmt rs d found s
       rule: process_comment_tree_process_replies.induct)
  case (1 isofmt c d s)
  show ?case
    by (cases "replace_more (replies c)")
       (simp_all add: process_comment_tree.simps [of isofmt c d s] flatten.simps [of isofmt c d]
          "1.IH" Let_def)
next
  case (2 isofmt d found s)
  show ?case by simp
next
  case (3 isofmt reply rs d found s)
  then show ?case
    by (cases "process_comment_tree isofmt reply d s") (simp add: fst_def split: prod.splits)
qed

lemma print_fields [simp]:
  "all_comments (print text s) = all_comments s"
  "comment_count (print text s) = comment_count s"
  "files (print text s) = files s"
  "stdout (print text s) = stdout s @ [text @ nl]"
  by (simp_all add: print_def)

lemma print_end_fields [simp]:
  "all_comments (print_end text e s) = all_comments s"
  "comment_count (print_end text e s) = comment_count s"
  "files (print_end text e s) = files s"
  "stdout (print_end text e s) = stdout s @ [text @ e]"
  by (simp_all add: print_end_def)

lemma process_comment_tree_frame:
  "all_comments (snd (process_comment_tree isofmt c d s)) = all_comments s \<and>
   files (snd (process_comment_tree isofmt c d s)) = files s"
  "all_comments (snd (process_replies isofmt rs d found s)) = all_comments s \<and>
   files (snd (process_replies isofmt rs d found s)) = files s"
proof (induction isofmt c d s and isofmt rs d found s
       rule: process_comment_tree_process_replies.induct)
  case (1 isofmt c d s)
  show ?case
    by (cases "replace_more (replies c)")
       (simp_all add: process_comment_tree.simps [of isofmt c d s] "1.IH" Let_def)
next
  case (2 isofmt d found s)
  show ?case by simp
next
  case (3 isofmt reply rs d found s)
  then show ?case
    by (cases "process_comment_tree isofmt reply d s") simp
qed

lemma process_top_level_all_comments:
  "all_comments (process_top_level isofmt cs s) =
     all_comments s @ concat (map (\<lambda>c. flatten isofmt c 0) cs)"
proof (induction cs arbitrary: s)
  case Nil
  show ?case by simp
next
  case (Cons c cs)
  obtain sub s' where step: "process_comment_tree isofmt c 0 s = (sub, s')"
    by (cases "process_comment_tree isofmt c 0 s")
  then have "sub = flatten isofmt c 0"
    using process_comment_tree_flatten(1) [of isofmt c 0 s] by simp
  moreover have "all_comments s' = all_comments s"
    using process_comment_tree_frame(1) [of isofmt c 0 s] step by simp
  ultimately show ?case
    using step Cons.IH by simp
qed

lemma scrape_submission_comments:
  assumes "client submission_id = Inr submission"
    and "replace_more (sub_comments submission) = Inr top_level"
  shows "\<exists>s'. scrape_submission client env submission_id s =
           (Inr \<lparr> post = extract_post_data (fromtimestamp_isoformat env) submission,
                   comments = concat (map (\<lambda>c. flatten (fromtimestamp_isoformat env) c 0) top_level),
                   total_comments = int (length
                     (concat (map (\<lambda>c. flatten (fromtimestamp_isoformat env) c 0) top_level))),
                   scraped_at = now_isoformat env \<rparr>, s')"
  using assms
  by (simp add: scrape_submission_def Let_def process_top_level_all_comments)

section \<open>The sample thread\<close>

lemma example_top_level:
  "replace_more (sub_comments example_submission) = Inr [scenario_comment, throttled_comment]"
  by (simp add: example_submission_def)

lemma example_scrape_returns:
  "\<exists>r s'. scrape_submission example_client example_env ''1ptvi51'' s = (Inr r, s')"
  using scrape_submission_comments [of example_client "''1ptvi51''" example_submission _
      example_env s, OF _ example_top_level]
  by (auto simp: example_client_def)

lemma example_scrape_ids:
  "scrape_submission example_client example_env ''1ptvi51'' s = (Inr r, s') \<Longrightarrow>
     map (\<lambda>c. (cid c, depth c)) (comments r) =
       [(''top'', 0), (''reply1'', 1), (''reply1.1'', 2), (''reply2'', 1), (''second'', 0)]"
  using scrape_submission_comments [of example_client "''1ptvi51''" example_submission _
      example_env s, OF _ example_top_level]
  by (auto simp: example_client_def flatten.simps extract_comment_data_def example_attrs_def
        scenario_comment_def throttled_comment_def)

lemma example_scrape_post:
  "scrape_submission example_client example_env ''1ptvi51'' s = (Inr r, s') \<Longrightarrow>
     post r = extract_post_data (fromtimestamp_isoformat example_env) example_submission"
  using scrape_submission_comments [of example_client "''1ptvi51''" example_submission _
      example_env s, OF _ example_top_level]
  by (auto simp: example_client_def)

section \<open>Lower case and equality up to case\<close>

lemma of_char_lt_256: "(of_char c :: nat) < 256"
  by (metis of_char_of mod_less_divisor zero_less_numeral char_of_char)






section \<open>A failed resolution and what is printed\<close>







section \<open>Visited comments, their ids and depths\<close>

lemma cid_extract [simp]:
  "cid (extract_comment_data isofmt c) = comment_id c"
  by (simp add: extract_comment_data_def comment_id_def)








section \<open>Reading back numbers and CSV rows\<close>

lemma digit_char: "k < 10 \<Longrightarrow> (of_char (char_of (48 + k :: nat)) :: nat) = 48 + k"
  by simp

lemma str_nat_digits: "list_all is_digit (str_nat n) \<and> str_nat n \<noteq> []"
proof (induction n rule: str_nat.induct)
  case (1 n)
  show ?case
  proof (cases "n < 10")
    case True
    then show ?thesis
      by (simp add: str_nat.simps [of n] is_digit_def digit_char)
  next
    case False
    then have "list_all is_digit (str_nat (n div 10))"
      using 1 by simp
    moreover have "is_digit (char_of (48 + n mod 10))"
      by (simp add: is_digit_def digit_char)
    ultimately show ?thesis
      using False by (simp add: str_nat.simps [of n])
  qed
qed

lemma nat_of_digits_str_nat: "nat_of_digits (str_nat n) = n"
proof (induction n rule: str_nat.induct)
  case (1 n)
  show ?case
  proof (cases "n < 10")
    case True
    then show ?thesis
      by (simp add: str_nat.simps [of n] nat_of_digits_def digit_char)
  next
    case False
    then have "nat_of_digits (str_nat (n div 10)) = n div 10"
      using 1 by simp
    then show ?thesis
      using False by (simp add: str_nat.simps [of n] nat_of_digits_def digit_char)
  qed
qed

lemma is_digit_not_minus: "is_digit c \<Longrightarrow> c \<noteq> CHR ''-''"
  by (auto simp: is_digit_def)

lemma int_of_str_str_int: "int_of_str (str_int i) = Some i"
proof (cases "i < 0")
  case True
  then show ?thesis
    using str_nat_digits [of "nat (- i)"]
    by (simp add: int_of_str_def str_int_def nat_of_digits_str_nat)
next
  case False
  obtain c ds where s: "str_nat (nat i) = c # ds"
    using str_nat_digits [of "nat i"] by (cases "str_nat (nat i)") auto
  then have "is_digit c"
    using str_nat_digits [of "nat i"] by simp
  then have "c \<noteq> CHR ''-''"
    by (rule is_digit_not_minus)
  then show ?thesis
    using False s str_nat_digits [of "nat i"] nat_of_digits_str_nat [of "nat i"]
    by (simp add: int_of_str_def str_int_def)
qed

lemma csv_run_simps [simp]:
  "csv_run st [] = st"
  "csv_run st (c # cs) = csv_run (csv_step st c) cs"
  "csv_run st (xs @ ys) = csv_run (csv_run st xs) ys"
  by (simp_all add: csv_run_def)

lemma quoted_escaped:
  "csv_run (InQuotedField, f, r, rows) (replace (CHR 0x22) [CHR 0x22, CHR 0x22] s) =
     (InQuotedField, f @ s, r, rows)"
  by (induction s arbitrary: f) (simp_all add: replace_def)

lemma quoted_plain:
  "CHR 0x22 \<notin> set s \<Longrightarrow> csv_run (InQuotedField, f, r, rows) s = (InQuotedField, f @ s, r, rows)"
  by (induction s arbitrary: f) auto

lemma replace_commute:
  "replace (CHR 0x0A) '' '' (replace (CHR 0x22) [CHR 0x22, CHR 0x22] s) =
     replace (CHR 0x22) [CHR 0x22, CHR 0x22] (replace (CHR 0x0A) '' '' s)"
  by (induction s) (simp_all add: replace_def)

lemma in_field_plain:
  "list_all plain_char s \<Longrightarrow> csv_run (InField, f, r, rows) s = (InField, f @ s, r, rows)"
  by (induction s arbitrary: f) (simp_all add: plain_char_def)

lemma start_field_plain:
  "list_all plain_char s \<Longrightarrow> s \<noteq> [] \<Longrightarrow>
     csv_run (StartField, f, r, rows) s = (InField, s, r, rows)"
  by (cases s) (simp_all add: in_field_plain, simp add: plain_char_def)

lemma is_digit_plain: "is_digit c \<Longrightarrow> plain_char c"
  by (auto simp: is_digit_def plain_char_def)

lemma str_int_plain: "list_all plain_char (str_int i) \<and> str_int i \<noteq> []"
proof -
  have "list_all plain_char (str_nat n)" for n
    using str_nat_digits [of n] is_digit_plain by (auto simp: list_all_iff)
  then show ?thesis
    using str_nat_digits by (simp add: str_int_def plain_char_def)
qed

lemma str_bool_plain: "list_all plain_char (str_bool b) \<and> str_bool b \<noteq> []"
  by (simp add: str_bool_def plain_char_def)

lemma csv_row_parsed:
  assumes "CHR 0x22 \<notin> set (cid c)" and "CHR 0x22 \<notin> set (created_datetime c)"
  shows "csv_run (StartRecord, [], [], rows) (csv_row c) =
           (StartRecord, [], [], rows @ [csv_fields c])"
  using assms str_int_plain [of "score c"] str_int_plain [of "depth c"]
    str_bool_plain [of "is_submitter c"]
  by (simp add: csv_row_def csv_fields_def Let_def nl_def quoted_plain quoted_escaped
        replace_commute start_field_plain)


lemma csv_rows_parsed:
  "\<forall>c \<in> set cs. CHR 0x22 \<notin> set (cid c) \<and> CHR 0x22 \<notin> set (created_datetime c) \<Longrightarrow>
     csv_run (StartRecord, [], [], rows) (concat (map csv_row cs)) =
       (StartRecord, [], [], rows @ map csv_fields cs)"
  by (induction cs arbitrary: rows) (simp_all add: csv_row_parsed)

lemma csv_header_parsed:
  "csv_run (StartRecord, [], [], []) csv_header =
     (StartRecord, [], [],
      [[''id'', ''author'', ''score'', ''depth'', ''is_submitter'', ''created_datetime'', ''body'']])"
  by (simp add: csv_header_def nl_def)

lemma read_row_csv_fields: "read_row (csv_fields c) = Some (cid c, author c, score c, depth c)"
  by (simp add: csv_fields_def int_of_str_str_int)

section \<open>The scenario of the specification\<close>




section \<open>The invariant of the flattened sequence\<close>





section \<open>A node whose replies cannot be resolved\<close>




section \<open>The CSV file read back\<close>

text \<open>
  C4, as stated, fails for a result in which an id holds a double quote: the id is
  written between quotes as it is, so the reader ends the field early and the row no
  longer yields the tuple. The body of the sample comment is plain.
\<close>

theorem quote_in_id_breaks_round_trip:
  "comments quoted_id_results \<noteq> []
   \<and> body (hd (comments quoted_id_results)) = ''hello''
   \<and> read_row (parse_csv (csv_content quoted_id_results) ! 1) = None"
  by code_simp

text \<open>
  C4, amended. For every result whose ids and creation date strings hold no double
  quote, whatever the bodies and authors are (quotes, commas and line feeds included),
  reading the CSV file gives the header row followed by one row per comment, in order,
  and each row yields the id, author, score and depth of its comment.
\<close>

theorem csv_round_trip:
  assumes "\<forall>c \<in> set (comments results).
             CHR 0x22 \<notin> set (cid c) \<and> CHR 0x22 \<notin> set (created_datetime c)"
  shows "parse_csv (csv_content results) =
           [''id'', ''author'', ''score'', ''depth'', ''is_submitter'', ''created_datetime'',
            ''body''] # map csv_fields (comments results)
     \<and> map read_row (tl (parse_csv (csv_content results))) =
           map (\<lambda>c. Some (cid c, author c, score c, depth c)) (comments results)"
proof -
  have "parse_csv (csv_content results) =
          [''id'', ''author'', ''score'', ''depth'', ''is_submitter'', ''created_datetime'',
           ''body''] # map csv_fields (comments results)"
    using csv_rows_parsed [OF assms] csv_header_parsed
    by (simp add: parse_csv_def csv_content_def csv_run_def [symmetric])
  then show ?thesis
    by (simp add: read_row_csv_fields comp_def)
qed

text \<open>
  A comment whose author and body hold quotes, with a line feed and a comma in the
  body and a negative score: the tuple is recovered and the body comes back with the
  line feed turned into a space.
\<close>

theorem csv_round_trip_witness:
  "map read_row (tl (parse_csv (csv_content quoted_body_results))) =
     [Some (''c1'', ''O'' @ [CHR 0x22] @ ''Neil'', - 12, 0)]
   \<and> parse_csv (csv_content quoted_body_results) ! 1 ! 6 =
     ''say '' @ [CHR 0x22] @ ''hi'' @ [CHR 0x22] @ '' bye, now''"
proof -
  have cs: "comments quoted_body_results =
       [(extract_comment_data (\<lambda>t. ''2024-01-01T00:00:00'') (Comment (example_attrs ''c1'') []))
          \<lparr>author := ''O'' @ [CHR 0x22] @ ''Neil'', score := - 12,
           body := ''say '' @ [CHR 0x22] @ ''hi'' @ [CHR 0x22, CHR 0x0A] @ ''bye, now''\<rparr>]"
    by (simp add: quoted_body_results_def)
  have "\<forall>c \<in> set (comments quoted_body_results).
          CHR 0x22 \<notin> set (cid c) \<and> CHR 0x22 \<notin> set (created_datetime c)"
    unfolding cs by (simp add: extract_comment_data_def example_attrs_def)
  from csv_round_trip [OF this]
  have rows: "parse_csv (csv_content quoted_body_results) =
           [''id'', ''author'', ''score'', ''depth'', ''is_submitter'', ''created_datetime'',
            ''body''] # map csv_fields (comments quoted_body_results)"
    and tuples: "map read_row (tl (parse_csv (csv_content quoted_body_results))) =
           map (\<lambda>c. Some (cid c, author c, score c, depth c)) (comments quoted_body_results)"
    by blast+
  have "map read_row (tl (parse_csv (csv_content quoted_body_results))) =
     [Some (''c1'', ''O'' @ [CHR 0x22] @ ''Neil'', - 12, 0)]"
    unfolding tuples cs by (simp add: extract_comment_data_def example_attrs_def)
  moreover have "parse_csv (csv_content quoted_body_results) ! 1 ! 6 =
     ''say '' @ [CHR 0x22] @ ''hi'' @ [CHR 0x22] @ '' bye, now''"
    unfolding rows cs by (simp add: csv_fields_def replace_def)
  ultimately show ?thesis
    by blast
qed

section \<open>The summary of the top comments\<close>



section \<open>The user filter selects by author\<close>



section \<open>The record extractor and a missing author\<close>

text \<open>
  C7. For a comment without author the extracted record has the author
  \<^verbatim>\<open>[deleted]\<close>, also as the first record that the flattener returns for it; for a
  submission without author the post record of the scrape has the same placeholder.
  The extractors are total functions of the object they read.
\<close>

theorem missing_author_placeholder:
  "(raw_author (attrs c) = None \<longrightarrow>
      author (extract_comment_data isofmt c) = ''[deleted]'' \<and>
      author (hd (fst (process_comment_tree isofmt c d s))) = ''[deleted]'')
   \<and> (client submission_id = Inr submission \<and> sub_author (sub_attrs submission) = None \<and>
        replace_more (sub_comments submission) = Inr top_level \<longrightarrow>
      (\<exists>r s'. scrape_submission client env submission_id s = (Inr r, s') \<and>
         post_author (post r) = ''[deleted]''))"
proof (intro conjI impI)
  assume "raw_author (attrs c) = None"
  then show "author (extract_comment_data isofmt c) = ''[deleted]''"
    by (simp add: extract_comment_data_def)
  then show "author (hd (fst (process_comment_tree isofmt c d s))) = ''[deleted]''"
    by (simp add: process_comment_tree_flatten flatten.simps [of isofmt c d])
next
  assume a: "client submission_id = Inr submission \<and> sub_author (sub_attrs submission) = None \<and>
        replace_more (sub_comments submission) = Inr top_level"
  then obtain s' where "scrape_submission client env submission_id s =
           (Inr \<lparr> post = extract_post_data (fromtimestamp_isoformat env) submission,
                   comments = concat (map (\<lambda>c. flatten (fromtimestamp_isoformat env) c 0) top_level),
                   total_comments = int (length
                     (concat (map (\<lambda>c. flatten (fromtimestamp_isoformat env) c 0) top_level))),
                   scraped_at = now_isoformat env \<rparr>, s')"
    using scrape_submission_comments [of client submission_id submission top_level env s] by blast
  moreover have "post_author (extract_post_data (fromtimestamp_isoformat env) submission) = ''[deleted]''"
    using a by (simp add: extract_post_data_def)
  ultimately show "\<exists>r s'. scrape_submission client env submission_id s = (Inr r, s') \<and>
         post_author (post r) = ''[deleted]''"
    by auto
qed

text \<open>A comment whose author is gone, and the sample submission, which has none.\<close>

theorem missing_author_placeholder_witness:
  "author (extract_comment_data (\<lambda>t. ''2024-01-01T00:00:00'')
     (Comment ((example_attrs ''gone'')\<lparr>raw_author := None\<rparr>) [])) = ''[deleted]''
   \<and> (case fst (scrape_submission example_client example_env ''1ptvi51'' state0) of
        Inr r \<Rightarrow> post_author (post r) = ''[deleted]''
      | Inl e \<Rightarrow> False)"
proof -
  let ?gone = "Comment ((example_attrs ''gone'')\<lparr>raw_author := None\<rparr>) []"
  note both = missing_author_placeholder [of ?gone "\<lambda>t. ''2024-01-01T00:00:00''" 0 state0
      example_client "''1ptvi51''" example_submission _ example_env]
  have "raw_author (attrs ?gone) = None"
    by simp
  with both [THEN conjunct1]
  have first: "author (extract_comment_data (\<lambda>t. ''2024-01-01T00:00:00'') ?gone) = ''[deleted]''"
    by blast
  have "example_client ''1ptvi51'' = Inr example_submission"
    by (simp add: example_client_def)
  moreover have "sub_author (sub_attrs example_submission) = None"
    by (simp add: example_submission_def)
  ultimately obtain r s' where
    "scrape_submission example_client example_env ''1ptvi51'' state0 = (Inr r, s')"
    "post_author (post r) = ''[deleted]''"
    using both [THEN conjunct2] example_top_level by blast
  then show ?thesis
    using first by simp
qed

section \<open>The check of the credentials\<close>

text \<open>
  C8, as stated, fails: with a client id and a secret that differ from their
  placeholders, the user agent may still be its placeholder, and all three may be
  empty; \<^verbatim>\<open>main\<close> goes on to build the client and to fetch the submission (here the
  API answers with an error, which leaves \<^verbatim>\<open>main\<close> as an exception).
\<close>

theorem unchecked_credentials_proceed:
  "fst (main failing_praw example_env ''p-jcoLKBynTLew'' ''gko_LXELoV07ZBNUXrvWZfzE3aI''
          ''python:reddit_scraper:v1.0 (by /u/YOUR_USERNAME)'' state0)
     = Raised (ApiError ''received 401 HTTP response'')
   \<and> fst (main failing_praw example_env [] [] [] state0)
     = Raised (ApiError ''received 401 HTTP response'')"
  by (simp add: main_def run_def scrape_submission_def failing_praw_def Let_def)

text \<open>
  C8, amended. If the client id or the client secret is its placeholder,
  \<^verbatim>\<open>main\<close> prints the diagnostic lines and exits with status 1, whatever the client
  library and the environment are: nothing else of the state changes and no client is
  built. If neither is, \<^verbatim>\<open>main\<close> announces and builds the client from the three
  strings as they are and runs the scrape.
\<close>

theorem placeholder_credentials_exit:
  "(CLIENT_ID = ''YOUR_CLIENT_ID_HERE'' \<or> CLIENT_SECRET = ''YOUR_CLIENT_SECRET_HERE'' \<longrightarrow>
      main praw_Reddit env CLIENT_ID CLIENT_SECRET USER_AGENT s =
        (Exit 1, s\<lparr>stdout := stdout s @ map (\<lambda>l. l @ nl) credentials_help\<rparr>)
      \<and> main praw_Reddit env CLIENT_ID CLIENT_SECRET USER_AGENT s =
          main praw_Reddit' env' CLIENT_ID CLIENT_SECRET USER_AGENT' s)
   \<and> (CLIENT_ID \<noteq> ''YOUR_CLIENT_ID_HERE'' \<and> CLIENT_SECRET \<noteq> ''YOUR_CLIENT_SECRET_HERE'' \<longrightarrow>
      main praw_Reddit env CLIENT_ID CLIENT_SECRET USER_AGENT s =
        run (praw_Reddit CLIENT_ID CLIENT_SECRET USER_AGENT) env ''1ptvi51'' ''reddit_complete''
          (print ''Initializing Reddit API client...'' s))"
  by (simp add: main_def Let_def prints_def print_def credentials_help_def)

text \<open>The script as shipped exits with status 1; with both fields filled in it goes on.\<close>

theorem placeholder_credentials_exit_witness:
  "main failing_praw example_env ''YOUR_CLIENT_ID_HERE'' ''YOUR_CLIENT_SECRET_HERE''
       ''python:reddit_scraper:v1.0 (by /u/YOUR_USERNAME)'' state0
     = (Exit 1, state0\<lparr>stdout := map (\<lambda>l. l @ nl) credentials_help\<rparr>)
   \<and> main failing_praw example_env ''p-jcoLKBynTLew'' ''gko_LXELoV07ZBNUXrvWZfzE3aI''
       ''python:reddit_scraper:v1.0 (by /u/me)'' state0
     = run (failing_praw ''p-jcoLKBynTLew'' ''gko_LXELoV07ZBNUXrvWZfzE3aI''
              ''python:reddit_scraper:v1.0 (by /u/me)'')
         example_env ''1ptvi51'' ''reddit_complete''
         (print ''Initializing Reddit API client...'' state0)"
  using placeholder_credentials_exit [of "''YOUR_CLIENT_ID_HERE''" "''YOUR_CLIENT_SECRET_HERE''"
      failing_praw example_env "''python:reddit_scraper:v1.0 (by /u/YOUR_USERNAME)''" state0]
    placeholder_credentials_exit [of "''p-jcoLKBynTLew''" "''gko_LXELoV07ZBNUXrvWZfzE3aI''"
      failing_praw example_env "''python:reddit_scraper:v1.0 (by /u/me)''" state0]
  by (simp add: state0_def)

section \<open>The exporters leave the result alone\<close>

text \<open>
  C9. Whatever \<^verbatim>\<open>save_results\<close> does (it writes four files, or is left by the
  exception of a path that cannot be opened), the result dictionary it was given is
  the same afterwards, and so are the attributes of the scraper.
\<close>

theorem save_results_leaves_results:
  "fst (snd (save_results env results output_prefix s)) = results
   \<and> all_comments (snd (snd (save_results env results output_prefix s))) = all_comments s
   \<and> comment_count (snd (snd (save_results env results output_prefix s))) = comment_count s"
  by (simp add: save_results_def write_file_def Let_def)

text \<open>All four files are written for a sample result, which is intact afterwards.\<close>

theorem save_results_leaves_results_witness:
  "(case save_results example_env
           \<lparr> post = extract_post_data (\<lambda>t. ''2024-01-01T00:00:00'') example_submission,
             comments = [(extract_comment_data (\<lambda>t. ''2024-01-01T00:00:00'')
                            (Comment (example_attrs ''top'') []))\<lparr>score := 3\<rparr>,
                         (extract_comment_data (\<lambda>t. ''2024-01-01T00:00:00'')
                            (Comment (example_attrs ''reply1'') []))\<lparr>score := 8, depth := 1\<rparr>],
             total_comments = 2, scraped_at = ''2024-01-02T00:00:00'' \<rparr>
           ''reddit_complete'' state0 of
      (e, results, s) \<Rightarrow>
        e = None \<and> map cid (comments results) = [''top'', ''reply1''] \<and>
        map score (comments results) = [3, 8] \<and> total_comments results = 2 \<and>
        dom (files s) = {''reddit_complete.json'', ''reddit_complete.txt'',
                         ''reddit_complete.csv'', ''reddit_complete_top_comments.txt''})"
  using save_results_leaves_results [of example_env
           "\<lparr> post = extract_post_data (\<lambda>t. ''2024-01-01T00:00:00'') example_submission,
             comments = [(extract_comment_data (\<lambda>t. ''2024-01-01T00:00:00'')
                            (Comment (example_attrs ''top'') []))\<lparr>score := 3\<rparr>,
                         (extract_comment_data (\<lambda>t. ''2024-01-01T00:00:00'')
                            (Comment (example_attrs ''reply1'') []))\<lparr>score := 8, depth := 1\<rparr>],
             total_comments = 2, scraped_at = ''2024-01-02T00:00:00'' \<rparr>"
           "''reddit_complete''" state0]
  by (auto simp: save_results_def write_file_def Let_def example_env_def state0_def
        extract_comment_data_def example_attrs_def)

section \<open>The count stored with a result\<close>

text \<open>
  C10. Every result that \<^verbatim>\<open>scrape_submission\<close> returns stores, as
  \<^verbatim>\<open>total_comments\<close>, the length of its comment sequence; the count that the API
  reports for the post plays no part.
\<close>

theorem total_comments_is_length:
  "scrape_submission client env submission_id s = (Inr r, s')
     \<Longrightarrow> total_comments r = int (length (comments r))"
  by (auto simp: scrape_submission_def Let_def split: sum.splits)

text \<open>
  On the sample thread the API reports 7 comments, 5 are flattened, and the result
  stores 5.
\<close>

theorem total_comments_is_length_witness:
  "(case scrape_submission example_client example_env ''1ptvi51'' state0 of
      (Inr r, s') \<Rightarrow>
         total_comments r = 5 \<and> length (comments r) = 5 \<and> num_comments (post r) = 7
    | (Inl e, s') \<Rightarrow> False)"
proof -
  obtain r s' where run:
    "scrape_submission example_client example_env ''1ptvi51'' state0 = (Inr r, s')"
    using example_scrape_returns by blast
  have "length (map (\<lambda>c. (cid c, depth c)) (comments r)) = 5"
    unfolding example_scrape_ids [OF run] by simp
  then have "length (comments r) = 5"
    by simp
  moreover have "total_comments r = int (length (comments r))"
    using run by (rule total_comments_is_length)
  moreover have "num_comments (post r) = 7"
    unfolding example_scrape_post [OF run]
    by (simp add: extract_post_data_def example_submission_def)
  ultimately show ?thesis
    using run by simp
qed

end
